theory Spec2Isabelle
  imports Complex_Main "HOL-Library.Word"
begin

section \<open>JavaScript values as server.js sees them\<close>

text \<open>
  A JavaScript string is a sequence of UTF-16 code units: \<open>s.length\<close> counts code units,
  and the regular expression \<open>/\D/g\<close> (no \<open>u\<close> flag) and \<open>trim()\<close> work on code units.
  \<open>js\<close> embeds an ASCII literal of the source.
\<close>

type_synonym code_unit = "16 word"
type_synonym jsstring = "code_unit list"

definition js :: "string \<Rightarrow> jsstring" where
  "js s = map of_char s"

text \<open>
  The values \<open>express.json()\<close> can put under a key of \<open>req.body\<close>, with \<open>JUndefined\<close> for
  an absent key. A JSON number is never NaN, so its only falsy value is zero.
\<close>

datatype jsval =
    JUndefined
  | JNull
  | JBool bool
  | JNum real
  | JString jsstring
  | JArray "jsval list"
  | JObject "(jsstring \<times> jsval) list"

text \<open>\<open>!!v\<close>: the truthiness the \<open>!number || !message\<close> test reads.\<close>

fun truthy :: "jsval \<Rightarrow> bool" where
  "truthy JUndefined = False"
| "truthy JNull = False"
| "truthy (JBool b) = b"
| "truthy (JNum x) = (x \<noteq> 0)"
| "truthy (JString s) = (s \<noteq> [])"
| "truthy (JArray xs) = True"
| "truthy (JObject kvs) = True"

fun typeof :: "jsval \<Rightarrow> string" where
  "typeof JUndefined = ''undefined''"
| "typeof JNull = ''object''"
| "typeof (JBool b) = ''boolean''"
| "typeof (JNum x) = ''number''"
| "typeof (JString s) = ''string''"
| "typeof (JArray xs) = ''object''"
| "typeof (JObject kvs) = ''object''"

text \<open>
  \<open>String.prototype.trim\<close> removes WhiteSpace and LineTerminator code units from both ends:
  TAB, LF, VT, FF, CR, SP, NBSP, U+1680, U+2000..U+200A, U+2028, U+2029, U+202F, U+205F,
  U+3000 and U+FEFF. All of them are single code units.
\<close>

definition is_white_space :: "code_unit \<Rightarrow> bool" where
  "is_white_space c \<longleftrightarrow>
     c \<in> {0x9, 0xA, 0xB, 0xC, 0xD, 0x20, 0xA0, 0x1680, 0x2028, 0x2029, 0x202F, 0x205F, 0x3000, 0xFEFF}
     \<or> (0x2000 \<le> c \<and> c \<le> 0x200A)"

definition trim :: "jsstring \<Rightarrow> jsstring" where
  "trim s = rev (dropWhile is_white_space (rev (dropWhile is_white_space s)))"

section \<open>formatPhoneNumber\<close>

text \<open>\<open>\d\<close> is \<open>[0-9]\<close>; \<open>\D\<close> is every other code unit.\<close>

definition is_digit :: "code_unit \<Rightarrow> bool" where
  "is_digit c \<longleftrightarrow> 0x30 \<le> c \<and> c \<le> 0x39"

text \<open>
  \<open>number.replace(/\D/g, "")\<close>: the scan goes left to right, and every code unit that
  matches \<open>\D\<close> is replaced by the empty string, every other one is copied.
\<close>

primrec replace_nondigits :: "jsstring \<Rightarrow> jsstring" where
  "replace_nondigits [] = []"
| "replace_nondigits (c # cs) = (if \<not> is_digit c then [] else [c]) @ replace_nondigits cs"

definition formatPhoneNumber :: "jsstring \<Rightarrow> jsstring" where
  "formatPhoneNumber number =
     (let cleanNumber = replace_nondigits number;
          formattedNumber = (if length cleanNumber = 10 then js ''91'' @ cleanNumber else cleanNumber)
      in formattedNumber @ js ''@c.us'')"

section \<open>Logging\<close>

text \<open>
  Every \<open>logger.info/warn/error(text, meta)\<close> and \<open>console.log/error(text, arg)\<close> call
  appends one entry; \<open>JUndefined\<close> stands for a call with no second argument. The emoji of
  the source's texts are written as their UTF-16 code units.
\<close>

datatype sink = Logger | Console | QrTerminal
datatype level = LInfo | LWarn | LError
datatype entry = Entry sink level jsstring jsval

definition rocket :: jsstring where "rocket = [0xD83D, 0xDE80]"
definition phone :: jsstring where "phone = [0xD83D, 0xDCF1]"
definition check_mark :: jsstring where "check_mark = [0x2705]"
definition cross_mark :: jsstring where "cross_mark = [0x274C]"
definition party :: jsstring where "party = [0xD83C, 0xDF89]"
definition phone_off :: jsstring where "phone_off = [0xD83D, 0xDCF4]"
definition arrows :: jsstring where "arrows = [0xD83D, 0xDD04]"
definition collision :: jsstring where "collision = [0xD83D, 0xDCA5]"
definition outbox :: jsstring where "outbox = [0xD83D, 0xDCE4]"

text \<open>A thrown or emitted \<open>Error\<close> object: the handlers read \<open>message\<close> and \<open>stack\<close>.\<close>

record js_error =
  error_message :: jsstring
  error_stack :: jsstring

definition error_object :: "js_error \<Rightarrow> jsval" where
  "error_object e =
     JObject [(js ''message'', JString (error_message e)), (js ''stack'', JString (error_stack e))]"

section \<open>The connection state and its lifecycle handlers\<close>

text \<open>
  The module-level variables of server.js: \<open>qrCodeDataUrl\<close>, \<open>whatsappClient\<close>,
  \<open>isClientReady\<close> and \<open>clientInitializing\<close>. \<open>whatsappClient\<close> holds the index of the
  \<open>Client\<close> instance it refers to, \<open>clients\<close> counts the instances constructed so far,
  \<open>timers\<close> are the pending \<open>setTimeout\<close> callbacks with their delay in milliseconds, and
  \<open>log\<close> is everything written so far. The handlers are closures over these variables, so an
  event has the same effect whichever instance emits it.
\<close>

datatype callback = Reconnect

record state =
  qrCodeDataUrl :: "jsstring option"
  whatsappClient :: "nat option"
  isClientReady :: bool
  clientInitializing :: bool
  clients :: nat
  timers :: "(nat \<times> callback) list"
  log :: "entry list"

text \<open>The state when the module has been loaded, before \<open>app.listen\<close> calls back.\<close>

definition initial_state :: state where
  "initial_state =
     \<lparr>qrCodeDataUrl = None, whatsappClient = None, isClientReady = False,
      clientInitializing = False, clients = 0, timers = [], log = []\<rparr>"

definition emit :: "entry \<Rightarrow> state \<Rightarrow> state" where
  "emit e s = s\<lparr>log := log s @ [e]\<rparr>"

text \<open>
  \<open>initializeWhatsApp\<close>: returns after a warning when the guard is set; otherwise sets the
  guard, constructs a new \<open>Client\<close>, stores it in \<open>whatsappClient\<close>, registers the handlers
  and calls \<open>initialize()\<close> on it. A rejection of that promise arrives later, as
  \<open>on_initialize_rejected\<close>.
\<close>

definition initializeWhatsApp :: "state \<Rightarrow> state" where
  "initializeWhatsApp s =
     (if clientInitializing s then
        emit (Entry Logger LWarn (js ''WhatsApp client initialization already in progress'') JUndefined) s
      else
        (emit (Entry Logger LInfo (rocket @ js '' Initializing WhatsApp client...'') JUndefined)
           (s\<lparr>clientInitializing := True\<rparr>))
        \<lparr>whatsappClient := Some (clients s), clients := Suc (clients s)\<rparr>)"

text \<open>
  \<open>on("qr")\<close>: \<open>converted\<close> is what \<open>qrcode.toDataURL\<close> hands to its callback, an error or
  the data URL. \<open>toDataURL\<close> is called before \<open>qrcodeTerminal.generate\<close>. When the code
  cannot be created the library calls back with the error before it returns, so the error is
  logged before the terminal rendering; a data URL arrives later, after the rendering.
\<close>

definition on_qr :: "jsstring \<Rightarrow> jsval + jsstring \<Rightarrow> state \<Rightarrow> state" where
  "on_qr qr converted s =
     (let s1 = emit (Entry Logger LInfo (phone @ js '' QR Code generated for WhatsApp login'') JUndefined) s
      in case converted of
           Inl err \<Rightarrow>
             emit (Entry QrTerminal LInfo qr (JObject [(js ''small'', JBool True)]))
               (emit (Entry Logger LError (js ''Failed to generate QR code data URL'')
                        (JObject [(js ''error'', err)])) s1)
         | Inr url \<Rightarrow>
             emit (Entry Console LInfo
                     ([0xA] @ phone @ js '' Scan QR code by visiting the /qr endpoint on your service URL.'')
                     JUndefined)
               (emit (Entry Logger LInfo (js ''QR Code available at /qr endpoint'') JUndefined)
                  ((emit (Entry QrTerminal LInfo qr (JObject [(js ''small'', JBool True)])) s1)
                     \<lparr>qrCodeDataUrl := Some url\<rparr>)))"

definition on_authenticated :: "state \<Rightarrow> state" where
  "on_authenticated s =
     emit (Entry Console LInfo (check_mark @ js '' WhatsApp authenticated successfully!'') JUndefined)
       (emit (Entry Logger LInfo (check_mark @ js '' WhatsApp authenticated successfully'') JUndefined) s)"

definition on_auth_failure :: "jsval \<Rightarrow> state \<Rightarrow> state" where
  "on_auth_failure msg s =
     (emit (Entry Console LError (cross_mark @ js '' Authentication failed:'') msg)
        (emit (Entry Logger LError (cross_mark @ js '' WhatsApp authentication failed'')
                 (JObject [(js ''error'', msg)])) s))
     \<lparr>isClientReady := False, clientInitializing := False\<rparr>"

definition on_ready :: "state \<Rightarrow> state" where
  "on_ready s =
     (emit (Entry Console LInfo (party @ js '' WhatsApp client is ready!'') JUndefined)
        (emit (Entry Logger LInfo (party @ js '' WhatsApp client is ready'') JUndefined) s))
     \<lparr>isClientReady := True, clientInitializing := False\<rparr>"

text \<open>\<open>on("disconnected")\<close>: one \<open>setTimeout(..., 5000)\<close> whose callback reconnects.\<close>

definition on_disconnected :: "jsval \<Rightarrow> state \<Rightarrow> state" where
  "on_disconnected reason s =
     (emit (Entry Console LInfo (phone_off @ js '' WhatsApp client disconnected:'') reason)
        (emit (Entry Logger LWarn (phone_off @ js '' WhatsApp client disconnected'')
                 (JObject [(js ''reason'', reason)])) s))
     \<lparr>isClientReady := False, clientInitializing := False,
      timers := timers s @ [(5000, Reconnect)]\<rparr>"

definition on_error :: "js_error \<Rightarrow> state \<Rightarrow> state" where
  "on_error e s =
     (emit (Entry Console LError (collision @ js '' WhatsApp client error:'') (error_object e))
        (emit (Entry Logger LError (collision @ js '' WhatsApp client error'')
                 (JObject [(js ''error'', JString (error_message e)),
                           (js ''stack'', JString (error_stack e))])) s))
     \<lparr>clientInitializing := False\<rparr>"

text \<open>\<open>on("message_create")\<close> logs the messages this account sent.\<close>

record created_message =
  fromMe :: bool
  to :: jsval
  serialized_id :: jsval
  msg_type :: jsval

definition on_message_create :: "created_message \<Rightarrow> state \<Rightarrow> state" where
  "on_message_create m s =
     (if fromMe m then
        emit (Entry Logger LInfo (outbox @ js '' Message sent'')
                (JObject [(js ''to'', to m), (js ''messageId'', serialized_id m),
                          (js ''type'', msg_type m)])) s
      else s)"

text \<open>The \<open>.catch\<close> of \<open>whatsappClient.initialize()\<close>.\<close>

definition on_initialize_rejected :: "js_error \<Rightarrow> state \<Rightarrow> state" where
  "on_initialize_rejected e s =
     (emit (Entry Logger LError (js ''Failed to initialize WhatsApp client'')
              (JObject [(js ''error'', JString (error_message e))])) s)
     \<lparr>clientInitializing := False\<rparr>"

text \<open>The body of the reconnect timer's callback, and the firing of the oldest timer.\<close>

fun run_callback :: "callback \<Rightarrow> state \<Rightarrow> state" where
  "run_callback Reconnect s =
     initializeWhatsApp
       (emit (Entry Console LInfo (arrows @ js '' Attempting to reconnect...'') JUndefined)
          (emit (Entry Logger LInfo (arrows @ js '' Attempting to reconnect WhatsApp client'') JUndefined) s))"

definition fire_timer :: "state \<Rightarrow> state" where
  "fire_timer s =
     (case timers s of
        [] \<Rightarrow> s
      | (delay, cb) # rest \<Rightarrow> run_callback cb (s\<lparr>timers := rest\<rparr>))"

text \<open>Everything that can happen to the connection state, one event at a time.\<close>

datatype event =
    EvInitialize
  | EvQr jsstring "jsval + jsstring"
  | EvAuthenticated
  | EvAuthFailure jsval
  | EvReady
  | EvDisconnected jsval
  | EvError js_error
  | EvMessageCreate created_message
  | EvInitializeRejected js_error
  | EvTimer

fun step :: "event \<Rightarrow> state \<Rightarrow> state" where
  "step EvInitialize s = initializeWhatsApp s"
| "step (EvQr qr converted) s = on_qr qr converted s"
| "step EvAuthenticated s = on_authenticated s"
| "step (EvAuthFailure msg) s = on_auth_failure msg s"
| "step EvReady s = on_ready s"
| "step (EvDisconnected reason) s = on_disconnected reason s"
| "step (EvError e) s = on_error e s"
| "step (EvMessageCreate m) s = on_message_create m s"
| "step (EvInitializeRejected e) s = on_initialize_rejected e s"
| "step EvTimer s = fire_timer s"

definition run :: "event list \<Rightarrow> state \<Rightarrow> state" where
  "run evs s = fold step evs s"

section \<open>Requests and responses\<close>

text \<open>
  What the handlers read of a request: \<open>req.ip\<close> and the two keys destructured from
  \<open>req.body\<close>. \<open>res.status(n).json(v)\<close> and \<open>res.send(html)\<close> give a response;
  \<open>res.json(v)\<close> alone has status 200.
\<close>

record request =
  ip :: jsval
  number :: jsval
  message :: jsval

datatype payload = Json jsval | Html jsstring

record response =
  status :: nat
  payload :: payload

section \<open>validateMessageInput\<close>

text \<open>
  The middleware either answers 400 itself or calls \<open>next()\<close>; the result is the entries it
  logged and the response, \<open>None\<close> for \<open>next()\<close>. The four tests are in the source's order.
\<close>

definition missing_fields_response :: response where
  "missing_fields_response =
     \<lparr>status = 400,
      payload = Json (JObject
        [(js ''success'', JBool False),
         (js ''error'', JString (js ''Both '' @ [0x22] @ js ''number'' @ [0x22] @ js '' and '' @ [0x22]
                                  @ js ''message'' @ [0x22] @ js '' fields are required'')),
         (js ''example'', JObject
            [(js ''number'', JString (js ''919876543210'')),
             (js ''message'', JString (js ''Hello from backend '' @ rocket))])])\<rparr>"

definition invalid_types_response :: response where
  "invalid_types_response =
     \<lparr>status = 400,
      payload = Json (JObject
        [(js ''success'', JBool False),
         (js ''error'', JString (js ''Both '' @ [0x22] @ js ''number'' @ [0x22] @ js '' and '' @ [0x22]
                                  @ js ''message'' @ [0x22] @ js '' must be strings''))])\<rparr>"

definition empty_message_response :: response where
  "empty_message_response =
     \<lparr>status = 400,
      payload = Json (JObject
        [(js ''success'', JBool False),
         (js ''error'', JString (js ''Message cannot be empty''))])\<rparr>"

definition message_too_long_response :: response where
  "message_too_long_response =
     \<lparr>status = 400,
      payload = Json (JObject
        [(js ''success'', JBool False),
         (js ''error'', JString (js ''Message too long (max 4096 characters)''))])\<rparr>"

text \<open>
  Past the \<open>typeof\<close> test both fields are strings; \<open>string_of\<close> reads such a value.
\<close>

fun string_of :: "jsval \<Rightarrow> jsstring" where
  "string_of (JString s) = s"
| "string_of v = []"

definition validateMessageInput :: "request \<Rightarrow> entry list \<times> response option" where
  "validateMessageInput req =
     (if \<not> truthy (number req) \<or> \<not> truthy (message req) then
        ([Entry Logger LWarn (js ''Validation failed: Missing required fields'')
            (JObject [(js ''hasNumber'', JBool (truthy (number req))),
                      (js ''hasMessage'', JBool (truthy (message req))),
                      (js ''ip'', ip req)])],
         Some missing_fields_response)
      else if typeof (number req) \<noteq> ''string'' \<or> typeof (message req) \<noteq> ''string'' then
        ([Entry Logger LWarn (js ''Validation failed: Invalid data types'')
            (JObject [(js ''numberType'', JString (js (typeof (number req)))),
                      (js ''messageType'', JString (js (typeof (message req)))),
                      (js ''ip'', ip req)])],
         Some invalid_types_response)
      else if length (trim (string_of (message req))) = 0 then
        ([Entry Logger LWarn (js ''Validation failed: Empty message'')
            (JObject [(js ''ip'', ip req)])],
         Some empty_message_response)
      else if length (string_of (message req)) > 4096 then
        ([Entry Logger LWarn (js ''Validation failed: Message too long'')
            (JObject [(js ''messageLength'', JNum (real (length (string_of (message req))))),
                      (js ''ip'', ip req)])],
         Some message_too_long_response)
      else ([], None))"

section \<open>GET /qr and GET /health\<close>

text \<open>\<open>if (qrCodeDataUrl)\<close> is false for \<open>null\<close> and for the empty string.\<close>

definition qr_not_available_response :: response where
  "qr_not_available_response =
     \<lparr>status = 404,
      payload = Json (JObject
        [(js ''success'', JBool False),
         (js ''error'', JString (js (''QR code not available at the moment. ''
            @ ''It may have been scanned already or is not yet generated.'')))])\<rparr>"

definition get_qr :: "state \<Rightarrow> response" where
  "get_qr s =
     (case qrCodeDataUrl s of
        None \<Rightarrow> qr_not_available_response
      | Some url \<Rightarrow>
          if url = [] then qr_not_available_response
          else \<lparr>status = 200,
                payload = Html (js ''<img src='' @ [0x22] @ url @ [0x22] @ js '' alt='' @ [0x22]
                                @ js ''Scan this QR code with WhatsApp'' @ [0x22] @ js ''>'')\<rparr>)"

text \<open>
  \<open>/health\<close>: the \<open>checks\<close> object is built first, \<open>server\<close> from the literal \<open>"ok"\<close>, and
  the status code is then read off \<open>health.checks.server\<close>. \<open>heapUsed\<close> is
  \<open>process.memoryUsage().heapUsed\<close>, \<open>now\<close> is \<open>new Date().toISOString()\<close>.
\<close>

record checks =
  server :: jsstring
  whatsapp :: jsstring
  memory :: jsstring

definition health_checks :: "state \<Rightarrow> nat \<Rightarrow> checks" where
  "health_checks s heapUsed =
     \<lparr>server = js ''ok'',
      whatsapp = (if isClientReady s then js ''ok'' else js ''disconnected''),
      memory = (if heapUsed < 500 * 1024 * 1024 then js ''ok'' else js ''warning'')\<rparr>"

definition health_status_code :: "checks \<Rightarrow> nat" where
  "health_status_code c = (if server c = js ''ok'' then 200 else 503)"

definition get_health :: "state \<Rightarrow> nat \<Rightarrow> jsstring \<Rightarrow> response" where
  "get_health s heapUsed now =
     (let c = health_checks s heapUsed
      in \<lparr>status = health_status_code c,
          payload = Json (JObject
            [(js ''status'', JString (js ''healthy'')),
             (js ''checks'', JObject
                [(js ''server'', JString (server c)),
                 (js ''whatsapp'', JString (whatsapp c)),
                 (js ''memory'', JString (memory c))]),
             (js ''timestamp'', JString now)])\<rparr>)"

section \<open>POST /send-whatsapp\<close>

text \<open>
  The external channel: what \<open>whatsappClient.getNumberId(chatId)\<close> and
  \<open>whatsappClient.sendMessage(chatId, message)\<close> resolve to, or the error they reject
  with (\<open>Inl\<close>). \<open>getNumberId\<close> resolves to an id object or \<open>null\<close>; of the sent message
  only \<open>id._serialized\<close> is read. Every call made is recorded, in order.
\<close>

record channel =
  getNumberId :: "jsstring \<Rightarrow> js_error + jsval"
  sendMessage :: "jsstring \<Rightarrow> jsstring \<Rightarrow> js_error + jsstring"

datatype call = GetNumberId jsstring | SendMessage jsstring jsstring

text \<open>
  The surroundings of one request: \<open>process.env.NODE_ENV\<close> (\<open>None\<close> when unset), the two
  readings of \<open>Date.now()\<close> (at entry, and when the send has returned or thrown) and
  \<open>new Date().toISOString()\<close> for the answer.
\<close>

record surroundings =
  node_env :: "jsstring option"
  startTime :: int
  endTime :: int
  isoNow :: jsstring

record outcome =
  answer :: response
  logged :: "entry list"
  calls :: "call list"

definition not_ready_response :: "state \<Rightarrow> response" where
  "not_ready_response s =
     \<lparr>status = 503,
      payload = Json (JObject
        [(js ''success'', JBool False),
         (js ''error'', JString (js (''WhatsApp client is not ready. ''
            @ ''Please wait for connection or scan QR code.''))),
         (js ''whatsappConnected'', JBool False),
         (js ''clientInitializing'', JBool (clientInitializing s))])\<rparr>"

definition not_registered_response :: "jsstring \<Rightarrow> response" where
  "not_registered_response num =
     \<lparr>status = 404,
      payload = Json (JObject
        [(js ''success'', JBool False),
         (js ''error'', JString (js ''Phone number is not registered on WhatsApp'')),
         (js ''number'', JString num)])\<rparr>"

definition sent_response :: "surroundings \<Rightarrow> jsstring \<Rightarrow> jsstring \<Rightarrow> jsstring \<Rightarrow> response" where
  "sent_response sur num chatId messageId =
     \<lparr>status = 200,
      payload = Json (JObject
        [(js ''success'', JBool True),
         (js ''message'', JString (js ''Message sent successfully'')),
         (js ''data'', JObject
            [(js ''to'', JString num),
             (js ''chatId'', JString chatId),
             (js ''messageId'', JString messageId),
             (js ''responseTime'', JNum (real_of_int (endTime sur - startTime sur))),
             (js ''timestamp'', JString (isoNow sur))])])\<rparr>"

text \<open>The \<open>catch\<close> block: the answer and the entry it logs.\<close>

definition send_failed_response :: "surroundings \<Rightarrow> js_error \<Rightarrow> response" where
  "send_failed_response sur e =
     \<lparr>status = 500,
      payload = Json (JObject
        [(js ''success'', JBool False),
         (js ''error'', JString (js ''Failed to send message'')),
         (js ''details'',
            JString (if node_env sur = Some (js ''development'') then error_message e
                     else js ''Internal server error'')),
         (js ''responseTime'', JNum (real_of_int (endTime sur - startTime sur))),
         (js ''timestamp'', JString (isoNow sur))])\<rparr>"

definition send_failed_entry :: "surroundings \<Rightarrow> jsval \<Rightarrow> jsstring \<Rightarrow> js_error \<Rightarrow> entry" where
  "send_failed_entry sur req_ip num e =
     Entry Logger LError (cross_mark @ js '' Error sending message'')
       (JObject [(js ''error'', JString (error_message e)),
                 (js ''stack'', JString (error_stack e)),
                 (js ''to'', JString num),
                 (js ''responseTime'', JNum (real_of_int (endTime sur - startTime sur))),
                 (js ''ip'', req_ip)])"

definition caught :: "surroundings \<Rightarrow> jsval \<Rightarrow> jsstring \<Rightarrow> entry list \<Rightarrow> call list \<Rightarrow> js_error \<Rightarrow> outcome" where
  "caught sur req_ip num before made e =
     \<lparr>answer = send_failed_response sur e,
      logged = before @ [send_failed_entry sur req_ip num e],
      calls = made\<rparr>"

text \<open>
  Reading a method of \<open>whatsappClient\<close> while the variable is still \<open>null\<close> throws a
  TypeError inside the \<open>try\<close>.
\<close>

definition null_client_error :: js_error where
  "null_client_error =
     \<lparr>error_message = js ''Cannot read properties of null (reading 'getNumberId')'',
      error_stack = js ''TypeError''\<rparr>"

text \<open>
  The route handler, entered after \<open>validateMessageInput\<close> called \<open>next()\<close>, so with
  \<open>number\<close> and \<open>message\<close> strings. It reads the connection state and changes none of it.
\<close>

definition send_handler ::
    "surroundings \<Rightarrow> channel \<Rightarrow> state \<Rightarrow> jsval \<Rightarrow> jsstring \<Rightarrow> jsstring \<Rightarrow> outcome" where
  "send_handler sur ch s req_ip num msg =
     (if \<not> isClientReady s then
        \<lparr>answer = not_ready_response s,
         logged = [Entry Logger LWarn (js ''Message send failed: Client not ready'')
                     (JObject [(js ''ip'', req_ip),
                               (js ''clientInitializing'', JBool (clientInitializing s))])],
         calls = []\<rparr>
      else
        let chatId = formatPhoneNumber num;
            attempt = Entry Logger LInfo (outbox @ js '' Attempting to send message'')
                        (JObject [(js ''to'', JString num), (js ''chatId'', JString chatId),
                                  (js ''messageLength'', JNum (real (length msg))),
                                  (js ''ip'', req_ip)])
        in case whatsappClient s of
             None \<Rightarrow> caught sur req_ip num [attempt] [] null_client_error
           | Some client \<Rightarrow>
               (case getNumberId ch chatId of
                  Inl e \<Rightarrow> caught sur req_ip num [attempt] [GetNumberId chatId] e
                | Inr numberId \<Rightarrow>
                    if \<not> truthy numberId then
                      \<lparr>answer = not_registered_response num,
                       logged = [attempt,
                                 Entry Logger LWarn (js ''Message send failed: Number not registered'')
                                   (JObject [(js ''number'', JString num),
                                             (js ''chatId'', JString chatId),
                                             (js ''ip'', req_ip)])],
                       calls = [GetNumberId chatId]\<rparr>
                    else
                      (case sendMessage ch chatId msg of
                         Inl e \<Rightarrow>
                           caught sur req_ip num [attempt]
                             [GetNumberId chatId, SendMessage chatId msg] e
                       | Inr messageId \<Rightarrow>
                           \<lparr>answer = sent_response sur num chatId messageId,
                            logged = [attempt,
                                      Entry Logger LInfo (check_mark @ js '' Message sent successfully'')
                                        (JObject [(js ''to'', JString num),
                                                  (js ''chatId'', JString chatId),
                                                  (js ''messageId'', JString messageId),
                                                  (js ''responseTime'',
                                                     JNum (real_of_int (endTime sur - startTime sur))),
                                                  (js ''ip'', req_ip)])],
                            calls = [GetNumberId chatId, SendMessage chatId msg]\<rparr>)))"

text \<open>
  The route \<open>app.post("/send-whatsapp", validateMessageInput, handler)\<close>. The handler runs
  only when the middleware called \<open>next()\<close>, and then both fields are strings, so
  \<open>string_of\<close> reads exactly what the handler destructures.
\<close>

definition post_send_whatsapp :: "surroundings \<Rightarrow> channel \<Rightarrow> state \<Rightarrow> request \<Rightarrow> outcome" where
  "post_send_whatsapp sur ch s req =
     (case validateMessageInput req of
        (entries, Some r) \<Rightarrow> \<lparr>answer = r, logged = entries, calls = []\<rparr>
      | (entries, None) \<Rightarrow>
          send_handler sur ch s (ip req) (string_of (number req)) (string_of (message req)))"

section \<open>Reading an answer, and the words of the specification\<close>

text \<open>
  \<open>field k v\<close> is \<open>v[k]\<close> for a JSON object \<open>v\<close>, \<open>json_of\<close> the body of a JSON answer.
\<close>

fun json_of :: "payload \<Rightarrow> jsval" where
  "json_of (Json v) = v"
| "json_of (Html h) = JUndefined"

fun field :: "string \<Rightarrow> jsval \<Rightarrow> jsval" where
  "field k (JObject kvs) = (case map_of kvs (js k) of Some v \<Rightarrow> v | None \<Rightarrow> JUndefined)"
| "field k v = JUndefined"

text \<open>
  The conditions the specification names for a request field: it is a string, it is a string
  of white space only (empty after trimming), it is a string longer than a bound. A field is
  absent or falsy when it is missing, \<open>null\<close>, \<open>false\<close>, \<open>0\<close> or the empty string.
\<close>

fun is_string :: "jsval \<Rightarrow> bool" where
  "is_string (JString s) = True"
| "is_string v = False"

fun all_white_space :: "jsval \<Rightarrow> bool" where
  "all_white_space (JString m) = list_all is_white_space m"
| "all_white_space v = False"

fun longer_than :: "nat \<Rightarrow> jsval \<Rightarrow> bool" where
  "longer_than k (JString m) = (length m > k)"
| "longer_than k v = False"

definition absent_or_falsy :: "jsval \<Rightarrow> bool" where
  "absent_or_falsy v \<longleftrightarrow> v \<in> {JUndefined, JNull, JBool False, JNum 0, JString []}"

definition rejected :: "request \<Rightarrow> bool" where
  "rejected req \<longleftrightarrow> snd (validateMessageInput req) \<noteq> None"

text \<open>
  The rejection condition in the specification's words: a field is missing, a field is not a
  string, the body is empty once trimmed, the body is longer than 4096.
\<close>

definition spec_invalid :: "request \<Rightarrow> bool" where
  "spec_invalid req \<longleftrightarrow>
     number req = JUndefined \<or> message req = JUndefined
     \<or> \<not> is_string (number req) \<or> \<not> is_string (message req)
     \<or> all_white_space (message req)
     \<or> longer_than 4096 (message req)"

text \<open>The parts of a log entry.\<close>

fun entry_sink :: "entry \<Rightarrow> sink" where "entry_sink (Entry k l t v) = k"
fun entry_level :: "entry \<Rightarrow> level" where "entry_level (Entry k l t v) = l"
fun entry_meta :: "entry \<Rightarrow> jsval" where "entry_meta (Entry k l t v) = v"

text \<open>Concrete surroundings for the examples.\<close>

definition sample_request :: request where
  "sample_request =
     \<lparr>ip = JString (js ''127.0.0.1''), number = JString (js ''9876543210''),
      message = JString (js ''Hello'')\<rparr>"

definition sample_surroundings :: surroundings where
  "sample_surroundings =
     \<lparr>node_env = Some (js ''production''), startTime = 1000, endTime = 1250,
      isoNow = js ''2024-01-01T00:00:00.000Z''\<rparr>"

definition silent_channel :: channel where
  "silent_channel =
     \<lparr>getNumberId = (\<lambda>chatId. Inr JNull),
      sendMessage = (\<lambda>chatId msg. Inr (js ''never''))\<rparr>"

definition registered_channel :: channel where
  "registered_channel =
     \<lparr>getNumberId = (\<lambda>chatId. Inr (JObject [(js ''_serialized'', JString chatId)])),
      sendMessage = (\<lambda>chatId msg. Inr (js ''true_'' @ chatId @ js ''_3EB0A1''))\<rparr>"

definition sample_error :: js_error where
  "sample_error =
     \<lparr>error_message = js ''Evaluation failed: session closed'',
      error_stack = js ''Error: Evaluation failed: session closed at ExecutionContext''\<rparr>"

definition failing_channel :: channel where
  "failing_channel =
     \<lparr>getNumberId = (\<lambda>chatId. Inl sample_error),
      sendMessage = (\<lambda>chatId msg. Inl sample_error)\<rparr>"

definition ready_state :: state where
  "ready_state = on_ready (initializeWhatsApp initial_state)"

definition development_surroundings :: surroundings where
  "development_surroundings = sample_surroundings\<lparr>node_env := Some (js ''development'')\<rparr>"

definition rejecting_channel :: channel where
  "rejecting_channel =
     \<lparr>getNumberId = (\<lambda>chatId. Inr (JObject [(js ''_serialized'', JString chatId)])),
      sendMessage = (\<lambda>chatId msg. Inl sample_error)\<rparr>"

definition letters_request :: request where
  "letters_request =
     \<lparr>ip = JString (js ''127.0.0.1''), number = JString (js ''abc def''),
      message = JString (js ''Hello'')\<rparr>"

text \<open>
  The events whose handler does not assign \<open>clientInitializing = false\<close>: every event but
  \<open>auth_failure\<close>, \<open>ready\<close>, \<open>disconnected\<close>, \<open>error\<close> and the rejection of
  \<open>initialize()\<close>.
\<close>

fun keeps_guard :: "event \<Rightarrow> bool" where
  "keeps_guard EvInitialize = True"
| "keeps_guard (EvQr qr converted) = True"
| "keeps_guard EvAuthenticated = True"
| "keeps_guard (EvMessageCreate m) = True"
| "keeps_guard EvTimer = True"
| "keeps_guard (EvAuthFailure msg) = False"
| "keeps_guard EvReady = False"
| "keeps_guard (EvDisconnected reason) = False"
| "keeps_guard (EvError e) = False"
| "keeps_guard (EvInitializeRejected e) = False"

definition sample_qr :: jsstring where
  "sample_qr = js ''2@AbCdEf,GhIjKl,MnOpQr''"

definition sample_url :: jsstring where
  "sample_url = js ''data:image/png;base64,iVBORw0KGgo=''"

text \<open>
  The specification's "being established": an instance is being established from its
  construction until an event says that it is ready, that its authentication failed, that it
  is disconnected or that its \<open>initialize()\<close> was rejected. \<open>establishing evs s n\<close> counts,
  along the events \<open>evs\<close> from the state \<open>s\<close>, the instances constructed since the last such
  event, any of which is taken to end every establishment under way.
\<close>

fun ends_establishing :: "event \<Rightarrow> bool" where
  "ends_establishing EvReady = True"
| "ends_establishing (EvAuthFailure msg) = True"
| "ends_establishing (EvDisconnected reason) = True"
| "ends_establishing (EvInitializeRejected e) = True"
| "ends_establishing e = False"

fun establishing :: "event list \<Rightarrow> state \<Rightarrow> nat \<Rightarrow> nat" where
  "establishing [] s n = n"
| "establishing (e # evs) s n =
     establishing evs (step e s)
       (if ends_establishing e then 0 else n + (clients (step e s) - clients s))"

text \<open>A \<open>checks\<close> object whose \<open>server\<close> is not "ok"; \<open>/health\<close> never builds one.\<close>

definition down_checks :: checks where
  "down_checks = \<lparr>server = js ''down'', whatsapp = js ''ok'', memory = js ''ok''\<rparr>"

section \<open>Properties of formatPhoneNumber\<close>

lemma replace_nondigits_filter: "replace_nondigits raw = filter is_digit raw"
  by (induction raw) simp_all

text \<open>
  C2. For every input string the normalizer keeps exactly the decimal digits, in order. With
  exactly 10 digits left the output is "91" followed by the digits and "@c.us"; with any other
  number of digits it is the digits followed by "@c.us", with nothing put in front. The result
  is a function of the input alone.
\<close>

theorem formatPhoneNumber_spec:
  "(length (filter is_digit raw) = 10 \<longrightarrow>
      formatPhoneNumber raw = js ''91'' @ filter is_digit raw @ js ''@c.us'')
   \<and> (length (filter is_digit raw) \<noteq> 10 \<longrightarrow>
      formatPhoneNumber raw = filter is_digit raw @ js ''@c.us'')
   \<and> (\<forall>c. c \<in> set (filter is_digit raw) \<longleftrightarrow> c \<in> set raw \<and> 0x30 \<le> c \<and> c \<le> 0x39)"
  by (auto simp: formatPhoneNumber_def replace_nondigits_filter is_digit_def)

theorem formatPhoneNumber_spec_witness:
  "length (filter is_digit (js ''98765-43210'')) = 10
   \<and> formatPhoneNumber (js ''98765-43210'') = js ''919876543210@c.us''
   \<and> length (filter is_digit (js ''+91 98765 43210'')) \<noteq> 10
   \<and> formatPhoneNumber (js ''+91 98765 43210'') = js ''919876543210@c.us''
   \<and> length (filter is_digit (js ''12345'')) \<noteq> 10
   \<and> formatPhoneNumber (js ''12345'') = js ''12345@c.us''"
  using formatPhoneNumber_spec [of "js ''98765-43210''"]
    formatPhoneNumber_spec [of "js ''+91 98765 43210''"]
    formatPhoneNumber_spec [of "js ''12345''"]
  by (simp add: js_def is_digit_def)

section \<open>The validator\<close>

lemma typeof_string_iff: "typeof v = ''string'' \<longleftrightarrow> (\<exists>s. v = JString s)"
  by (cases v) simp_all

lemma falsy_iff:
  "\<not> truthy v \<longleftrightarrow> v = JUndefined \<or> v = JNull \<or> v = JBool False \<or> v = JNum 0 \<or> v = JString []"
  by (cases v) simp_all

lemma dropWhile_all_iff: "(\<forall>x \<in> set (dropWhile P xs). P x) \<longleftrightarrow> dropWhile P xs = []"
proof (cases "dropWhile P xs")
  case Nil
  show ?thesis unfolding Nil by simp
next
  case (Cons y ys)
  then have "\<not> P (hd (dropWhile P xs))"
    using hd_dropWhile [of P xs] by simp
  with Cons show ?thesis by auto
qed

lemma trim_empty_iff: "trim m = [] \<longleftrightarrow> (\<forall>c \<in> set m. is_white_space c)"
proof -
  have "trim m = [] \<longleftrightarrow> (\<forall>x \<in> set (dropWhile is_white_space m). is_white_space x)"
    by (simp add: trim_def dropWhile_eq_Nil_conv)
  also have "\<dots> \<longleftrightarrow> dropWhile is_white_space m = []"
    by (rule dropWhile_all_iff)
  also have "\<dots> \<longleftrightarrow> (\<forall>c \<in> set m. is_white_space c)"
    by (simp add: dropWhile_eq_Nil_conv)
  finally show ?thesis .
qed

lemma validate_next_iff:
  "snd (validateMessageInput req) = None \<longleftrightarrow>
     (\<exists>n m. number req = JString n \<and> message req = JString m \<and> n \<noteq> [] \<and> trim m \<noteq> []
        \<and> length m \<le> 4096)"
  apply (cases "number req"; cases "message req")
  apply (auto simp: validateMessageInput_def trim_def)
  done

lemma validate_next_logs: "snd (validateMessageInput req) = None \<Longrightarrow> validateMessageInput req = ([], None)"
  by (auto simp: validateMessageInput_def split: if_splits)


lemma validate_first_rule:
  "snd (validateMessageInput req) =
     (if absent_or_falsy (number req) \<or> absent_or_falsy (message req) then Some missing_fields_response
      else if \<not> is_string (number req) \<or> \<not> is_string (message req) then Some invalid_types_response
      else if all_white_space (message req) then Some empty_message_response
      else if longer_than 4096 (message req) then Some message_too_long_response
      else None)"
proof -
  have a: "absent_or_falsy v \<longleftrightarrow> \<not> truthy v" for v
    by (simp add: absent_or_falsy_def falsy_iff)
  have b: "is_string v \<longleftrightarrow> typeof v = ''string''" for v
    by (cases v) simp_all
  have c: "typeof v = ''string'' \<Longrightarrow> all_white_space v \<longleftrightarrow> length (trim (string_of v)) = 0" for v
    by (cases v) (simp_all add: trim_empty_iff list_all_iff)
  have d: "typeof v = ''string'' \<Longrightarrow> longer_than k v \<longleftrightarrow> length (string_of v) > k" for v k
    by (cases v) simp_all
  show ?thesis
    unfolding a b by (simp add: validateMessageInput_def c d)
qed

lemma responses_400:
  "status missing_fields_response = 400" "status invalid_types_response = 400"
  "status empty_message_response = 400" "status message_too_long_response = 400"
  by (simp_all add: missing_fields_response_def invalid_types_response_def
      empty_message_response_def message_too_long_response_def)

lemma missing_fields_example:
  "field ''example'' (json_of (payload missing_fields_response)) =
     JObject [(js ''number'', JString (js ''919876543210'')),
              (js ''message'', JString (js ''Hello from backend '' @ rocket))]"
  by (simp add: missing_fields_response_def js_def)

text \<open>
  C6, as the code has it. The validator answers 400 exactly when the destination or the body
  is absent or falsy (missing, \<open>null\<close>, \<open>false\<close>, \<open>0\<close> or the empty string), either is not a
  string, the body is white space only, or the body is longer than 4096 code units. It reports
  the first of these rules that is violated, in this order, and nothing else. A request
  without \<open>message\<close> gets the missing-fields answer with its example payload, and a body of
  4097 code units is rejected.
\<close>

theorem validateMessageInput_rules:
  "(rejected req \<longleftrightarrow>
      absent_or_falsy (number req) \<or> absent_or_falsy (message req)
      \<or> \<not> is_string (number req) \<or> \<not> is_string (message req)
      \<or> all_white_space (message req) \<or> longer_than 4096 (message req))
   \<and> (\<forall>r. snd (validateMessageInput req) = Some r \<longrightarrow> status r = 400)
   \<and> snd (validateMessageInput req) =
       (if absent_or_falsy (number req) \<or> absent_or_falsy (message req) then Some missing_fields_response
        else if \<not> is_string (number req) \<or> \<not> is_string (message req) then Some invalid_types_response
        else if all_white_space (message req) then Some empty_message_response
        else if longer_than 4096 (message req) then Some message_too_long_response
        else None)
   \<and> (message req = JUndefined \<longrightarrow>
        snd (validateMessageInput req) = Some missing_fields_response
        \<and> field ''example'' (json_of (payload missing_fields_response)) =
            JObject [(js ''number'', JString (js ''919876543210'')),
                     (js ''message'', JString (js ''Hello from backend '' @ rocket))])
   \<and> (\<forall>m. message req = JString m \<and> length m = 4097 \<longrightarrow> rejected req)"
proof (intro conjI allI impI)
  show "rejected req \<longleftrightarrow>
      absent_or_falsy (number req) \<or> absent_or_falsy (message req)
      \<or> \<not> is_string (number req) \<or> \<not> is_string (message req)
      \<or> all_white_space (message req) \<or> longer_than 4096 (message req)"
    unfolding rejected_def validate_first_rule by auto
  show "status r = 400" if "snd (validateMessageInput req) = Some r" for r
    using that unfolding validate_first_rule by (auto simp: responses_400 split: if_splits)
  show "snd (validateMessageInput req) =
       (if absent_or_falsy (number req) \<or> absent_or_falsy (message req) then Some missing_fields_response
        else if \<not> is_string (number req) \<or> \<not> is_string (message req) then Some invalid_types_response
        else if all_white_space (message req) then Some empty_message_response
        else if longer_than 4096 (message req) then Some message_too_long_response
        else None)"
    by (rule validate_first_rule)
  show "snd (validateMessageInput req) = Some missing_fields_response" if "message req = JUndefined"
    using that unfolding validate_first_rule by (simp add: absent_or_falsy_def)
  show "field ''example'' (json_of (payload missing_fields_response)) =
            JObject [(js ''number'', JString (js ''919876543210'')),
                     (js ''message'', JString (js ''Hello from backend '' @ rocket))]"
    by (rule missing_fields_example)
  show "rejected req" if "message req = JString m \<and> length m = 4097" for m
    using that unfolding rejected_def validate_first_rule by simp
qed

theorem validateMessageInput_rules_witness:
  "snd (validateMessageInput \<lparr>ip = JNull, number = JString (js ''919876543210''), message = JUndefined\<rparr>)
     = Some missing_fields_response
   \<and> status missing_fields_response = 400
   \<and> rejected \<lparr>ip = JNull, number = JString (js ''919876543210''),
                message = JString (replicate 4097 0x61)\<rparr>"
proof -
  let ?a = "\<lparr>ip = JNull, number = JString (js ''919876543210''), message = JUndefined\<rparr>"
  let ?b = "\<lparr>ip = JNull, number = JString (js ''919876543210''),
             message = JString (replicate 4097 0x61)\<rparr>"
  note a = validateMessageInput_rules [of ?a]
  note b = validateMessageInput_rules [of ?b]
  have 1: "snd (validateMessageInput ?a) = Some missing_fields_response"
    using a [THEN conjunct2, THEN conjunct2, THEN conjunct2, THEN conjunct1] by simp
  have 2: "status missing_fields_response = 400"
    using a [THEN conjunct2, THEN conjunct1] 1 by blast
  have "message ?b = JString (replicate 4097 0x61) \<and> length (replicate 4097 (0x61 :: code_unit)) = 4097"
    by simp
  with b [THEN conjunct2, THEN conjunct2, THEN conjunct2, THEN conjunct2] have 3: "rejected ?b"
    by blast
  from 1 2 3 show ?thesis by blast
qed

text \<open>
  C6 as the specification words it fails: a request whose \<open>number\<close> is the empty string and
  whose \<open>message\<close> is "hi" has both fields present, both strings, a body that is not empty
  once trimmed and not too long, and is rejected all the same; and a present but empty
  \<open>message\<close> gets the missing-fields answer, not the empty-message one.
\<close>

theorem validateMessageInput_missing_counterexample:
  "snd (validateMessageInput \<lparr>ip = JNull, number = JString [], message = JString (js ''hi'')\<rparr>)
     = Some missing_fields_response
   \<and> \<not> spec_invalid \<lparr>ip = JNull, number = JString [], message = JString (js ''hi'')\<rparr>
   \<and> snd (validateMessageInput \<lparr>ip = JNull, number = JString (js ''919876543210''), message = JString []\<rparr>)
     = Some missing_fields_response
   \<and> missing_fields_response \<noteq> empty_message_response"
proof (intro conjI)
  show "snd (validateMessageInput \<lparr>ip = JNull, number = JString [], message = JString (js ''hi'')\<rparr>)
     = Some missing_fields_response"
    by (simp add: validateMessageInput_def)
  show "\<not> spec_invalid \<lparr>ip = JNull, number = JString [], message = JString (js ''hi'')\<rparr>"
    by (simp add: spec_invalid_def js_def is_white_space_def)
  show "snd (validateMessageInput \<lparr>ip = JNull, number = JString (js ''919876543210''), message = JString []\<rparr>)
     = Some missing_fields_response"
    by (simp add: validateMessageInput_def)
  show "missing_fields_response \<noteq> empty_message_response"
    by (simp add: missing_fields_response_def empty_message_response_def)
qed

section \<open>Admission: sending while not ready\<close>

lemma validate_next_strings:
  assumes "snd (validateMessageInput req) = None"
  shows "number req = JString (string_of (number req))"
    and "message req = JString (string_of (message req))"
  using assms by (auto simp: validate_next_iff)

lemma post_next:
  "snd (validateMessageInput req) = None \<Longrightarrow>
     post_send_whatsapp sur ch s req =
       send_handler sur ch s (ip req) (string_of (number req)) (string_of (message req))"
  by (simp add: post_send_whatsapp_def validate_next_logs)

lemma handler_not_ready:
  "\<not> isClientReady s \<Longrightarrow>
     answer (send_handler sur ch s a n m) = not_ready_response s
     \<and> calls (send_handler sur ch s a n m) = []"
  by (simp add: send_handler_def)

lemma handler_not_ready_any_channel:
  "\<not> isClientReady s \<Longrightarrow> send_handler sur ch s a n m = send_handler sur ch' s a n m"
  by (simp add: send_handler_def)

lemma not_ready_fields:
  "status (not_ready_response s) = 503"
  "field ''success'' (json_of (payload (not_ready_response s))) = JBool False"
  "field ''whatsappConnected'' (json_of (payload (not_ready_response s))) = JBool False"
  "field ''clientInitializing'' (json_of (payload (not_ready_response s))) = JBool (clientInitializing s)"
  by (simp_all add: not_ready_response_def js_def)

lemma sample_request_valid: "snd (validateMessageInput sample_request) = None"
  by (simp add: sample_request_def validateMessageInput_def trim_def js_def is_white_space_def)

text \<open>
  C1. A request that passed validation, arriving while \<open>isClientReady\<close> is false, is answered
  503 with \<open>whatsappConnected: false\<close> and \<open>clientInitializing\<close> set to the guard's current
  value; no call reaches the external channel (neither \<open>getNumberId\<close> nor \<open>sendMessage\<close>),
  and the outcome is the same whatever the channel would have answered.
\<close>

theorem send_not_ready:
  assumes "snd (validateMessageInput req) = None" and "\<not> isClientReady s"
  shows "answer (post_send_whatsapp sur ch s req) = not_ready_response s
    \<and> status (answer (post_send_whatsapp sur ch s req)) = 503
    \<and> field ''whatsappConnected'' (json_of (payload (answer (post_send_whatsapp sur ch s req))))
        = JBool False
    \<and> field ''clientInitializing'' (json_of (payload (answer (post_send_whatsapp sur ch s req))))
        = JBool (clientInitializing s)
    \<and> calls (post_send_whatsapp sur ch s req) = []
    \<and> post_send_whatsapp sur ch s req = post_send_whatsapp sur ch' s req"
  using assms handler_not_ready [of s sur ch] handler_not_ready_any_channel [of s sur ch _ _ _ ch']
  by (simp add: post_next not_ready_fields)

theorem send_not_ready_witness:
  "snd (validateMessageInput sample_request) = None
   \<and> \<not> isClientReady (initializeWhatsApp initial_state)
   \<and> status (answer (post_send_whatsapp sample_surroundings silent_channel
        (initializeWhatsApp initial_state) sample_request)) = 503
   \<and> field ''clientInitializing'' (json_of (payload (answer (post_send_whatsapp sample_surroundings
        silent_channel (initializeWhatsApp initial_state) sample_request)))) = JBool True
   \<and> calls (post_send_whatsapp sample_surroundings silent_channel
        (initializeWhatsApp initial_state) sample_request) = []"
proof -
  have r: "\<not> isClientReady (initializeWhatsApp initial_state)"
    by (simp add: initializeWhatsApp_def initial_state_def emit_def)
  have i: "clientInitializing (initializeWhatsApp initial_state) = True"
    by (simp add: initializeWhatsApp_def initial_state_def emit_def)
  note w = send_not_ready [OF sample_request_valid r, of sample_surroundings silent_channel silent_channel]
  show ?thesis
    using w sample_request_valid r unfolding i by blast
qed

section \<open>Sending while ready\<close>

lemma ready_state_simps:
  "isClientReady ready_state" "whatsappClient ready_state = Some 0"
  "\<not> clientInitializing ready_state"
  by (simp_all add: ready_state_def on_ready_def initializeWhatsApp_def initial_state_def emit_def)

lemma format_sample: "formatPhoneNumber (js ''9876543210'') = js ''919876543210@c.us''"
  by (simp add: formatPhoneNumber_def js_def is_digit_def)

lemma handler_sent:
  assumes "isClientReady s" "whatsappClient s = Some c"
    and "getNumberId ch (formatPhoneNumber n) = Inr nid" "truthy nid"
    and "sendMessage ch (formatPhoneNumber n) m = Inr mid"
  shows "answer (send_handler sur ch s a n m) = sent_response sur n (formatPhoneNumber n) mid"
    and "calls (send_handler sur ch s a n m) =
           [GetNumberId (formatPhoneNumber n), SendMessage (formatPhoneNumber n) m]"
  using assms by (simp_all add: send_handler_def Let_def)

lemma handler_not_registered:
  assumes "isClientReady s" "whatsappClient s = Some c"
    and "getNumberId ch (formatPhoneNumber n) = Inr nid" "\<not> truthy nid"
  shows "answer (send_handler sur ch s a n m) = not_registered_response n"
    and "calls (send_handler sur ch s a n m) = [GetNumberId (formatPhoneNumber n)]"
  using assms by (simp_all add: send_handler_def Let_def)

lemma sent_fields:
  "status (sent_response sur n chatId mid) = 200"
  "field ''success'' (json_of (payload (sent_response sur n chatId mid))) = JBool True"
  "field ''to'' (field ''data'' (json_of (payload (sent_response sur n chatId mid)))) = JString n"
  "field ''chatId'' (field ''data'' (json_of (payload (sent_response sur n chatId mid)))) = JString chatId"
  "field ''messageId'' (field ''data'' (json_of (payload (sent_response sur n chatId mid)))) = JString mid"
  "field ''responseTime'' (field ''data'' (json_of (payload (sent_response sur n chatId mid))))
     = JNum (real_of_int (endTime sur - startTime sur))"
  by (simp_all add: sent_response_def js_def)

lemma not_registered_fields:
  "status (not_registered_response n) = 404"
  "field ''number'' (json_of (payload (not_registered_response n))) = JString n"
  by (simp_all add: not_registered_response_def js_def)

lemma sample_request_fields:
  "number sample_request = JString (js ''9876543210'')"
  "message sample_request = JString (js ''Hello'')"
  by (simp_all add: sample_request_def)

lemma registered_channel_simps:
  "getNumberId registered_channel chatId = Inr (JObject [(js ''_serialized'', JString chatId)])"
  "sendMessage registered_channel chatId msg = Inr (js ''true_'' @ chatId @ js ''_3EB0A1'')"
  by (simp_all add: registered_channel_def)

lemma silent_channel_simps:
  "getNumberId silent_channel chatId = Inr JNull"
  by (simp add: silent_channel_def)

text \<open>
  C7. A validated request with destination "9876543210", arriving while the state is ready (a
  client emitted \<open>ready\<close>, so \<open>whatsappClient\<close> is set): the address is
  "919876543210@c.us"; the channel is asked whether that address exists and, if it does, the
  message is dispatched to exactly that address, the two calls being the only ones. The
  answer then is 200 with \<open>to\<close> the raw input, \<open>chatId\<close> the address, \<open>messageId\<close> what the
  channel returned and \<open>responseTime\<close> the elapsed time. If the channel does not know the
  address the answer is 404 and the existence check is the only call.
\<close>

theorem send_ready_scenario:
  assumes "snd (validateMessageInput req) = None"
    and "number req = JString (js ''9876543210'')" and "message req = JString m"
    and "isClientReady s" and "whatsappClient s = Some c"
  shows "formatPhoneNumber (js ''9876543210'') = js ''919876543210@c.us''
    \<and> (\<forall>nid mid.
          getNumberId ch (js ''919876543210@c.us'') = Inr nid \<and> truthy nid
          \<and> sendMessage ch (js ''919876543210@c.us'') m = Inr mid \<longrightarrow>
          calls (post_send_whatsapp sur ch s req)
            = [GetNumberId (js ''919876543210@c.us''), SendMessage (js ''919876543210@c.us'') m]
          \<and> status (answer (post_send_whatsapp sur ch s req)) = 200
          \<and> field ''to'' (field ''data'' (json_of (payload (answer (post_send_whatsapp sur ch s req)))))
              = JString (js ''9876543210'')
          \<and> field ''chatId'' (field ''data'' (json_of (payload (answer (post_send_whatsapp sur ch s req)))))
              = JString (js ''919876543210@c.us'')
          \<and> field ''messageId'' (field ''data'' (json_of (payload (answer (post_send_whatsapp sur ch s req)))))
              = JString mid
          \<and> field ''responseTime'' (field ''data'' (json_of (payload (answer (post_send_whatsapp sur ch s req)))))
              = JNum (real_of_int (endTime sur - startTime sur)))
    \<and> (\<forall>nid.
          getNumberId ch (js ''919876543210@c.us'') = Inr nid \<and> \<not> truthy nid \<longrightarrow>
          calls (post_send_whatsapp sur ch s req) = [GetNumberId (js ''919876543210@c.us'')]
          \<and> status (answer (post_send_whatsapp sur ch s req)) = 404
          \<and> answer (post_send_whatsapp sur ch s req) = not_registered_response (js ''9876543210''))"
proof -
  have p: "post_send_whatsapp sur ch s req = send_handler sur ch s (ip req) (js ''9876543210'') m"
    using assms(1-3) by (simp add: post_next)
  show ?thesis
    unfolding p
    using handler_sent [OF assms(4,5), of ch "js ''9876543210''" _ m _ sur "ip req"]
      handler_not_registered [OF assms(4,5), of ch "js ''9876543210''" _ sur "ip req" m]
    by (simp add: format_sample sent_fields not_registered_fields)
qed

theorem send_ready_scenario_witness:
  "snd (validateMessageInput sample_request) = None
   \<and> isClientReady ready_state
   \<and> calls (post_send_whatsapp sample_surroundings registered_channel ready_state sample_request)
       = [GetNumberId (js ''919876543210@c.us''), SendMessage (js ''919876543210@c.us'') (js ''Hello'')]
   \<and> status (answer (post_send_whatsapp sample_surroundings registered_channel ready_state
        sample_request)) = 200
   \<and> field ''to'' (field ''data'' (json_of (payload (answer (post_send_whatsapp sample_surroundings
        registered_channel ready_state sample_request))))) = JString (js ''9876543210'')
   \<and> field ''chatId'' (field ''data'' (json_of (payload (answer (post_send_whatsapp sample_surroundings
        registered_channel ready_state sample_request))))) = JString (js ''919876543210@c.us'')
   \<and> calls (post_send_whatsapp sample_surroundings silent_channel ready_state sample_request)
       = [GetNumberId (js ''919876543210@c.us'')]
   \<and> status (answer (post_send_whatsapp sample_surroundings silent_channel ready_state
        sample_request)) = 404"
proof -
  note w = send_ready_scenario [OF sample_request_valid sample_request_fields ready_state_simps(1,2)]
  have a: "getNumberId registered_channel (js ''919876543210@c.us'')
             = Inr (JObject [(js ''_serialized'', JString (js ''919876543210@c.us''))])
           \<and> truthy (JObject [(js ''_serialized'', JString (js ''919876543210@c.us''))])
           \<and> sendMessage registered_channel (js ''919876543210@c.us'') (js ''Hello'')
               = Inr (js ''true_'' @ js ''919876543210@c.us'' @ js ''_3EB0A1'')"
    by (simp add: registered_channel_simps)
  have b: "getNumberId silent_channel (js ''919876543210@c.us'') = Inr JNull \<and> \<not> truthy JNull"
    by (simp add: silent_channel_simps)
  from w [of registered_channel sample_surroundings, THEN conjunct2, THEN conjunct1] a
  have 1: "calls (post_send_whatsapp sample_surroundings registered_channel ready_state sample_request)
       = [GetNumberId (js ''919876543210@c.us''), SendMessage (js ''919876543210@c.us'') (js ''Hello'')]
   \<and> status (answer (post_send_whatsapp sample_surroundings registered_channel ready_state
        sample_request)) = 200
   \<and> field ''to'' (field ''data'' (json_of (payload (answer (post_send_whatsapp sample_surroundings
        registered_channel ready_state sample_request))))) = JString (js ''9876543210'')
   \<and> field ''chatId'' (field ''data'' (json_of (payload (answer (post_send_whatsapp sample_surroundings
        registered_channel ready_state sample_request))))) = JString (js ''919876543210@c.us'')"
    by blast
  from w [of silent_channel sample_surroundings, THEN conjunct2, THEN conjunct2] b
  have 2: "calls (post_send_whatsapp sample_surroundings silent_channel ready_state sample_request)
       = [GetNumberId (js ''919876543210@c.us'')]
   \<and> status (answer (post_send_whatsapp sample_surroundings silent_channel ready_state
        sample_request)) = 404"
    by blast
  from 1 2 sample_request_valid ready_state_simps(1) show ?thesis by blast
qed

section \<open>A send that throws\<close>

lemma handler_caught_first:
  assumes "isClientReady s" "whatsappClient s = Some c"
    and "getNumberId ch (formatPhoneNumber n) = Inl e"
  shows "send_handler sur ch s a n m =
           caught sur a n
             [Entry Logger LInfo (outbox @ js '' Attempting to send message'')
                (JObject [(js ''to'', JString n), (js ''chatId'', JString (formatPhoneNumber n)),
                          (js ''messageLength'', JNum (real (length m))), (js ''ip'', a)])]
             [GetNumberId (formatPhoneNumber n)] e"
  using assms by (simp add: send_handler_def Let_def)

lemma handler_caught_second:
  assumes "isClientReady s" "whatsappClient s = Some c"
    and "getNumberId ch (formatPhoneNumber n) = Inr nid" "truthy nid"
    and "sendMessage ch (formatPhoneNumber n) m = Inl e"
  shows "send_handler sur ch s a n m =
           caught sur a n
             [Entry Logger LInfo (outbox @ js '' Attempting to send message'')
                (JObject [(js ''to'', JString n), (js ''chatId'', JString (formatPhoneNumber n)),
                          (js ''messageLength'', JNum (real (length m))), (js ''ip'', a)])]
             [GetNumberId (formatPhoneNumber n), SendMessage (formatPhoneNumber n) m] e"
  using assms by (simp add: send_handler_def Let_def)

lemma caught_fields:
  "status (answer (caught sur a n before made e)) = 500"
  "field ''success'' (json_of (payload (answer (caught sur a n before made e)))) = JBool False"
  "field ''error'' (json_of (payload (answer (caught sur a n before made e))))
     = JString (js ''Failed to send message'')"
  "field ''details'' (json_of (payload (answer (caught sur a n before made e))))
     = JString (if node_env sur = Some (js ''development'') then error_message e
                else js ''Internal server error'')"
  "field ''responseTime'' (json_of (payload (answer (caught sur a n before made e))))
     = JNum (real_of_int (endTime sur - startTime sur))"
  by (simp_all add: caught_def send_failed_response_def js_def)

lemma caught_logged:
  "last (logged (caught sur a n before made e)) = send_failed_entry sur a n e"
  by (simp add: caught_def)

lemma send_failed_entry_fields:
  "entry_sink (send_failed_entry sur a n e) = Logger"
  "entry_level (send_failed_entry sur a n e) = LError"
  "field ''error'' (entry_meta (send_failed_entry sur a n e)) = JString (error_message e)"
  "field ''stack'' (entry_meta (send_failed_entry sur a n e)) = JString (error_stack e)"
  by (simp_all add: send_failed_entry_def js_def)

lemma sample_env:
  "node_env sample_surroundings \<noteq> Some (js ''development'')"
  "node_env development_surroundings = Some (js ''development'')"
  "endTime sample_surroundings - startTime sample_surroundings = 250"
  by (simp_all add: sample_surroundings_def development_surroundings_def js_def)

lemma sample_error_message: "error_message sample_error = js ''Evaluation failed: session closed''"
  by (simp add: sample_error_def)

text \<open>
  C8. When the existence check or the dispatch throws, the answer is 500 with the elapsed
  time. Its \<open>details\<close> is the error's message when \<open>NODE_ENV\<close> is "development" and the
  fixed text "Internal server error" in every other case (also when \<open>NODE_ENV\<close> is unset),
  so, for an error whose message is not that fixed text, the message reaches the caller if
  and only if the mode is development. In both cases the last entry logged is an error entry
  of the logger that carries the error's message and stack. The whole answer is fixed:
  outside development it is the status 500 with \<open>success\<close>, \<open>error\<close>, the generic
  \<open>details\<close>, \<open>responseTime\<close> and \<open>timestamp\<close> and nothing else, so nothing of the error
  reaches the caller; in development it differs only in \<open>details\<close>.
\<close>

theorem send_failed_detail:
  assumes "snd (validateMessageInput req) = None"
    and "isClientReady s" and "whatsappClient s = Some c"
    and "getNumberId ch (formatPhoneNumber (string_of (number req))) = Inl e
         \<or> (\<exists>nid. getNumberId ch (formatPhoneNumber (string_of (number req))) = Inr nid \<and> truthy nid
              \<and> sendMessage ch (formatPhoneNumber (string_of (number req))) (string_of (message req)) = Inl e)"
  shows "status (answer (post_send_whatsapp sur ch s req)) = 500
    \<and> field ''error'' (json_of (payload (answer (post_send_whatsapp sur ch s req))))
        = JString (js ''Failed to send message'')
    \<and> field ''responseTime'' (json_of (payload (answer (post_send_whatsapp sur ch s req))))
        = JNum (real_of_int (endTime sur - startTime sur))
    \<and> (node_env sur = Some (js ''development'') \<longrightarrow>
          field ''details'' (json_of (payload (answer (post_send_whatsapp sur ch s req))))
            = JString (error_message e))
    \<and> (node_env sur \<noteq> Some (js ''development'') \<longrightarrow>
          field ''details'' (json_of (payload (answer (post_send_whatsapp sur ch s req))))
            = JString (js ''Internal server error''))
    \<and> (error_message e \<noteq> js ''Internal server error'' \<longrightarrow>
          (field ''details'' (json_of (payload (answer (post_send_whatsapp sur ch s req))))
             = JString (error_message e)
           \<longleftrightarrow> node_env sur = Some (js ''development'')))
    \<and> entry_sink (last (logged (post_send_whatsapp sur ch s req))) = Logger
    \<and> entry_level (last (logged (post_send_whatsapp sur ch s req))) = LError
    \<and> field ''error'' (entry_meta (last (logged (post_send_whatsapp sur ch s req))))
        = JString (error_message e)
    \<and> field ''stack'' (entry_meta (last (logged (post_send_whatsapp sur ch s req))))
        = JString (error_stack e)
    \<and> (node_env sur \<noteq> Some (js ''development'') \<longrightarrow>
          answer (post_send_whatsapp sur ch s req) =
            \<lparr>status = 500,
             payload = Json (JObject
               [(js ''success'', JBool False),
                (js ''error'', JString (js ''Failed to send message'')),
                (js ''details'', JString (js ''Internal server error'')),
                (js ''responseTime'', JNum (real_of_int (endTime sur - startTime sur))),
                (js ''timestamp'', JString (isoNow sur))])\<rparr>)
    \<and> (node_env sur = Some (js ''development'') \<longrightarrow>
          answer (post_send_whatsapp sur ch s req) =
            \<lparr>status = 500,
             payload = Json (JObject
               [(js ''success'', JBool False),
                (js ''error'', JString (js ''Failed to send message'')),
                (js ''details'', JString (error_message e)),
                (js ''responseTime'', JNum (real_of_int (endTime sur - startTime sur))),
                (js ''timestamp'', JString (isoNow sur))])\<rparr>)"
proof -
  let ?n = "string_of (number req)" and ?m = "string_of (message req)"
  let ?out = "post_send_whatsapp sur ch s req"
  from assms(4)
  have "\<exists>before made. send_handler sur ch s (ip req) ?n ?m = caught sur (ip req) ?n before made e"
  proof
    assume "getNumberId ch (formatPhoneNumber ?n) = Inl e"
    from handler_caught_first [OF assms(2,3) this] show ?thesis by blast
  next
    assume "\<exists>nid. getNumberId ch (formatPhoneNumber ?n) = Inr nid \<and> truthy nid
              \<and> sendMessage ch (formatPhoneNumber ?n) ?m = Inl e"
    then obtain nid where "getNumberId ch (formatPhoneNumber ?n) = Inr nid" and "truthy nid"
      and "sendMessage ch (formatPhoneNumber ?n) ?m = Inl e"
      by blast
    from handler_caught_second [OF assms(2,3) this] show ?thesis by blast
  qed
  then obtain before made where
    c: "post_send_whatsapp sur ch s req = caught sur (ip req) ?n before made e"
    unfolding post_next [OF assms(1)] by blast
  have fields: "status (answer ?out) = 500
    \<and> field ''error'' (json_of (payload (answer ?out))) = JString (js ''Failed to send message'')
    \<and> field ''responseTime'' (json_of (payload (answer ?out)))
        = JNum (real_of_int (endTime sur - startTime sur))
    \<and> (node_env sur = Some (js ''development'') \<longrightarrow>
          field ''details'' (json_of (payload (answer ?out))) = JString (error_message e))
    \<and> (node_env sur \<noteq> Some (js ''development'') \<longrightarrow>
          field ''details'' (json_of (payload (answer ?out))) = JString (js ''Internal server error''))
    \<and> (error_message e \<noteq> js ''Internal server error'' \<longrightarrow>
          (field ''details'' (json_of (payload (answer ?out))) = JString (error_message e)
           \<longleftrightarrow> node_env sur = Some (js ''development'')))
    \<and> entry_sink (last (logged ?out)) = Logger
    \<and> entry_level (last (logged ?out)) = LError
    \<and> field ''error'' (entry_meta (last (logged ?out))) = JString (error_message e)
    \<and> field ''stack'' (entry_meta (last (logged ?out))) = JString (error_stack e)"
    unfolding c by (simp add: caught_fields caught_logged send_failed_entry_fields)
  have whole: "answer ?out = send_failed_response sur e"
    unfolding c by (simp add: caught_def)
  have production: "answer ?out =
            \<lparr>status = 500,
             payload = Json (JObject
               [(js ''success'', JBool False),
                (js ''error'', JString (js ''Failed to send message'')),
                (js ''details'', JString (js ''Internal server error'')),
                (js ''responseTime'', JNum (real_of_int (endTime sur - startTime sur))),
                (js ''timestamp'', JString (isoNow sur))])\<rparr>"
    if "node_env sur \<noteq> Some (js ''development'')"
    unfolding whole using that by (simp add: send_failed_response_def)
  have development: "answer ?out =
            \<lparr>status = 500,
             payload = Json (JObject
               [(js ''success'', JBool False),
                (js ''error'', JString (js ''Failed to send message'')),
                (js ''details'', JString (error_message e)),
                (js ''responseTime'', JNum (real_of_int (endTime sur - startTime sur))),
                (js ''timestamp'', JString (isoNow sur))])\<rparr>"
    if "node_env sur = Some (js ''development'')"
    unfolding whole using that by (simp add: send_failed_response_def)
  from fields production development show ?thesis
    by blast
qed

theorem send_failed_detail_witness:
  "snd (validateMessageInput sample_request) = None
   \<and> isClientReady ready_state
   \<and> status (answer (post_send_whatsapp sample_surroundings failing_channel ready_state
        sample_request)) = 500
   \<and> field ''details'' (json_of (payload (answer (post_send_whatsapp sample_surroundings
        failing_channel ready_state sample_request)))) = JString (js ''Internal server error'')
   \<and> field ''error'' (entry_meta (last (logged (post_send_whatsapp sample_surroundings
        failing_channel ready_state sample_request)))) = JString (js ''Evaluation failed: session closed'')
   \<and> status (answer (post_send_whatsapp development_surroundings rejecting_channel ready_state
        sample_request)) = 500
   \<and> field ''details'' (json_of (payload (answer (post_send_whatsapp development_surroundings
        rejecting_channel ready_state sample_request))))
       = JString (js ''Evaluation failed: session closed'')
   \<and> node_env sample_surroundings \<noteq> Some (js ''development'')
   \<and> answer (post_send_whatsapp sample_surroundings failing_channel ready_state sample_request) =
        \<lparr>status = 500,
         payload = Json (JObject
           [(js ''success'', JBool False),
            (js ''error'', JString (js ''Failed to send message'')),
            (js ''details'', JString (js ''Internal server error'')),
            (js ''responseTime'',
               JNum (real_of_int (endTime sample_surroundings - startTime sample_surroundings))),
            (js ''timestamp'', JString (isoNow sample_surroundings))])\<rparr>"
proof -
  let ?n = "string_of (number sample_request)" and ?m = "string_of (message sample_request)"
  have a: "getNumberId failing_channel (formatPhoneNumber ?n) = Inl sample_error
           \<or> (\<exists>nid. getNumberId failing_channel (formatPhoneNumber ?n) = Inr nid \<and> truthy nid
                \<and> sendMessage failing_channel (formatPhoneNumber ?n) ?m = Inl sample_error)"
    by (simp add: failing_channel_def)
  have b: "getNumberId rejecting_channel (formatPhoneNumber ?n) = Inl sample_error
           \<or> (\<exists>nid. getNumberId rejecting_channel (formatPhoneNumber ?n) = Inr nid \<and> truthy nid
                \<and> sendMessage rejecting_channel (formatPhoneNumber ?n) ?m = Inl sample_error)"
    by (simp add: rejecting_channel_def)
  note wa = send_failed_detail [OF sample_request_valid ready_state_simps(1,2) a, of sample_surroundings]
  note wb = send_failed_detail [OF sample_request_valid ready_state_simps(1,2) b, of development_surroundings]
  show ?thesis
    using wa wb sample_request_valid ready_state_simps(1) sample_env(1,2)
    unfolding sample_error_message by blast
qed

section \<open>A destination without digits\<close>

lemma format_no_digit: "filter is_digit n = [] \<Longrightarrow> formatPhoneNumber n = js ''@c.us''"
  by (simp add: formatPhoneNumber_def replace_nondigits_filter)

lemma handler_first_call:
  assumes "isClientReady s" "whatsappClient s = Some c"
  shows "\<exists>rest. calls (send_handler sur ch s a n m) = GetNumberId (formatPhoneNumber n) # rest"
  using assms
  by (auto simp: send_handler_def Let_def caught_def split: sum.splits)

text \<open>
  C10. A request whose \<open>number\<close> is a non-empty string with no decimal digit and whose
  \<open>message\<close> is valid passes the validator, which logs nothing; the normalizer gives the
  address "@c.us"; and when the state is ready the first thing that happens to that address
  is the channel's existence check, so no rule of the gateway rejects it before. With the
  empty string as \<open>number\<close> the same request gets the missing-fields answer.
\<close>

theorem digitless_number_reaches_channel:
  assumes "number req = JString n" and "n \<noteq> []" and "\<forall>c \<in> set n. \<not> is_digit c"
    and "message req = JString m" and "trim m \<noteq> []" and "length m \<le> 4096"
  shows "validateMessageInput req = ([], None)
    \<and> formatPhoneNumber n = js ''@c.us''
    \<and> (isClientReady s \<and> whatsappClient s \<noteq> None \<longrightarrow>
         (\<exists>rest. calls (post_send_whatsapp sur ch s req) = GetNumberId (js ''@c.us'') # rest))
    \<and> snd (validateMessageInput (req\<lparr>number := JString []\<rparr>)) = Some missing_fields_response"
proof -
  have v: "snd (validateMessageInput req) = None"
    using assms(1,2,4,5,6) by (simp add: validate_next_iff)
  have f: "formatPhoneNumber n = js ''@c.us''"
    using assms(3) by (intro format_no_digit) (simp add: filter_empty_conv)
  have c: "\<exists>rest. calls (post_send_whatsapp sur ch s req) = GetNumberId (js ''@c.us'') # rest"
    if "isClientReady s \<and> whatsappClient s \<noteq> None"
  proof -
    from that obtain c where "isClientReady s" "whatsappClient s = Some c" by auto
    from handler_first_call [OF this, of sur ch "ip req" n "string_of (message req)"]
    show ?thesis
      unfolding post_next [OF v] by (simp add: assms(1) f)
  qed
  have e: "snd (validateMessageInput (req\<lparr>number := JString []\<rparr>)) = Some missing_fields_response"
    by (simp add: validateMessageInput_def)
  from validate_next_logs [OF v] f c e show ?thesis by blast
qed

theorem digitless_number_reaches_channel_witness:
  "js ''abc def'' \<noteq> [] \<and> list_all (\<lambda>c. \<not> is_digit c) (js ''abc def'')
   \<and> trim (js ''Hello'') \<noteq> [] \<and> length (js ''Hello'') \<le> 4096
   \<and> validateMessageInput letters_request = ([], None)
   \<and> formatPhoneNumber (js ''abc def'') = js ''@c.us''
   \<and> isClientReady ready_state \<and> whatsappClient ready_state \<noteq> None
   \<and> calls (post_send_whatsapp sample_surroundings silent_channel ready_state letters_request)
       = [GetNumberId (js ''@c.us'')]"
proof -
  have 1: "number letters_request = JString (js ''abc def'')"
    and 2: "js ''abc def'' \<noteq> []"
    and 3: "\<forall>c \<in> set (js ''abc def''). \<not> is_digit c"
    and 4: "message letters_request = JString (js ''Hello'')"
    and 5: "trim (js ''Hello'') \<noteq> []"
    and 6: "length (js ''Hello'') \<le> 4096"
    by (simp_all add: letters_request_def js_def is_digit_def trim_def is_white_space_def)
  note w = digitless_number_reaches_channel [OF 1 2 3 4 5 6, of ready_state sample_surroundings silent_channel]
  have r: "isClientReady ready_state \<and> whatsappClient ready_state \<noteq> None"
    by (simp add: ready_state_simps)
  have l: "list_all (\<lambda>c. \<not> is_digit c) (js ''abc def'')"
    using 3 by (simp add: list_all_iff)
  from w have v: "validateMessageInput letters_request = ([], None)" by blast
  from w have f: "formatPhoneNumber (js ''abc def'') = js ''@c.us''" by blast
  have p: "post_send_whatsapp sample_surroundings silent_channel ready_state letters_request
             = send_handler sample_surroundings silent_channel ready_state (ip letters_request)
                 (js ''abc def'') (js ''Hello'')"
    using v by (simp add: post_send_whatsapp_def 1 4)
  have c: "calls (post_send_whatsapp sample_surroundings silent_channel ready_state letters_request)
       = [GetNumberId (js ''@c.us'')]"
    unfolding p using handler_not_registered(2) [OF ready_state_simps(1,2), of silent_channel "js ''abc def''" JNull]
    by (simp add: silent_channel_def f)
  from 2 l 5 6 v f r c show ?thesis by blast
qed

section \<open>The health probe\<close>

lemma health_fields:
  "field ''server'' (field ''checks'' (json_of (payload (get_health s heapUsed now))))
     = JString (server (health_checks s heapUsed))"
  "field ''whatsapp'' (field ''checks'' (json_of (payload (get_health s heapUsed now))))
     = JString (whatsapp (health_checks s heapUsed))"
  "status (get_health s heapUsed now) = health_status_code (health_checks s heapUsed)"
  by (simp_all add: get_health_def Let_def js_def)

text \<open>
  C9. In every connection state \<open>/health\<close> answers 200: its \<open>server\<close> check is the literal
  "ok", also when the \<open>whatsapp\<close> check reports "disconnected". The status code is read off
  the \<open>server\<close> check alone, 200 when it is "ok" and 503 exactly when it is not.
\<close>

theorem health_status:
  "status (get_health s heapUsed now) = 200
   \<and> status (get_health s heapUsed now) = health_status_code (health_checks s heapUsed)
   \<and> field ''server'' (field ''checks'' (json_of (payload (get_health s heapUsed now))))
       = JString (js ''ok'')
   \<and> (\<not> isClientReady s \<longrightarrow>
        field ''whatsapp'' (field ''checks'' (json_of (payload (get_health s heapUsed now))))
          = JString (js ''disconnected'')
        \<and> status (get_health s heapUsed now) = 200)
   \<and> (\<forall>c. server c = js ''ok'' \<longrightarrow> health_status_code c = 200)
   \<and> (\<forall>c. health_status_code c = 503 \<longleftrightarrow> server c \<noteq> js ''ok'')"
  by (simp add: health_fields health_checks_def health_status_code_def)

theorem health_status_witness:
  "\<not> isClientReady initial_state
   \<and> field ''whatsapp'' (field ''checks'' (json_of (payload (get_health initial_state 1000 (isoNow sample_surroundings)))))
       = JString (js ''disconnected'')
   \<and> status (get_health initial_state 1000 (isoNow sample_surroundings)) = 200
   \<and> server (health_checks initial_state 1000) = js ''ok''
   \<and> health_status_code (health_checks initial_state 1000) = 200
   \<and> server down_checks \<noteq> js ''ok''
   \<and> health_status_code down_checks = 503"
proof -
  note w = health_status [of initial_state 1000 "isoNow sample_surroundings"]
  have r: "\<not> isClientReady initial_state"
    by (simp add: initial_state_def)
  have k: "server (health_checks initial_state 1000) = js ''ok''"
    by (simp add: health_checks_def)
  have d: "server down_checks \<noteq> js ''ok''"
    by (simp add: down_checks_def js_def)
  from w r k d show ?thesis by blast
qed

section \<open>The authenticated event\<close>

text \<open>No event of the lifecycle resets a stored challenge.\<close>

lemma initialize_keeps_challenge: "qrCodeDataUrl (initializeWhatsApp s) = qrCodeDataUrl s"
  by (simp add: initializeWhatsApp_def emit_def)

lemma challenge_never_cleared:
  assumes "qrCodeDataUrl s \<noteq> None"
  shows "qrCodeDataUrl (step e s) \<noteq> None"
proof (cases e)
  case (EvQr qr converted)
  with assms show ?thesis
    by (simp add: on_qr_def Let_def emit_def split: sum.splits)
next
  case EvTimer
  show ?thesis
  proof (cases "timers s")
    case Nil
    with assms EvTimer show ?thesis by (simp add: fire_timer_def)
  next
    case (Cons t rest)
    obtain d cb where t: "t = (d, cb)" by (cases t)
    have cb: "cb = Reconnect" by (cases cb)
    from assms EvTimer Cons t cb show ?thesis
      by (simp add: fire_timer_def initialize_keeps_challenge emit_def)
  qed
qed (use assms in \<open>simp_all add: initialize_keeps_challenge on_authenticated_def on_auth_failure_def
      on_ready_def on_disconnected_def on_error_def on_message_create_def
      on_initialize_rejected_def emit_def\<close>)

lemma on_authenticated_frame:
  "qrCodeDataUrl (on_authenticated s) = qrCodeDataUrl s"
  "isClientReady (on_authenticated s) = isClientReady s"
  "clientInitializing (on_authenticated s) = clientInitializing s"
  by (simp_all add: on_authenticated_def emit_def)

lemma qr_then_authenticated:
  "qrCodeDataUrl (run [EvInitialize, EvQr sample_qr (Inr sample_url), EvAuthenticated] initial_state)
     = Some sample_url"
  by (simp add: run_def on_authenticated_frame on_qr_def Let_def emit_def)

text \<open>
  C3 does not hold of the code. The \<open>authenticated\<close> handler only logs: it leaves
  \<open>qrCodeDataUrl\<close> as it was, so \<open>/qr\<close> answers after the event what it answered before.
  After a challenge was stored and the authentication succeeded, \<open>/qr\<close> still answers 200
  with the stored challenge, not the 404 whose text says the code "may have been scanned
  already".
\<close>

theorem qr_served_after_authenticated:
  "get_qr (on_authenticated s) = get_qr s
   \<and> qrCodeDataUrl (on_authenticated s) = qrCodeDataUrl s
   \<and> qrCodeDataUrl (run [EvInitialize, EvQr sample_qr (Inr sample_url), EvAuthenticated] initial_state)
       = Some sample_url
   \<and> status (get_qr (run [EvInitialize, EvQr sample_qr (Inr sample_url), EvAuthenticated] initial_state))
       = 200
   \<and> get_qr (run [EvInitialize, EvQr sample_qr (Inr sample_url), EvAuthenticated] initial_state)
       \<noteq> qr_not_available_response"
proof -
  have u: "sample_url \<noteq> []"
    by (simp add: sample_url_def js_def)
  have g: "get_qr (on_authenticated s) = get_qr s"
    by (simp add: get_qr_def on_authenticated_frame)
  have q: "status (get_qr (run [EvInitialize, EvQr sample_qr (Inr sample_url), EvAuthenticated] initial_state)) = 200"
    using u by (simp add: get_qr_def qr_then_authenticated)
  have n: "status qr_not_available_response = 404"
    by (simp add: qr_not_available_response_def)
  from g q n qr_then_authenticated on_authenticated_frame(1) [of s] show ?thesis
    by auto
qed

section \<open>The error event\<close>

text \<open>
  C4, as the code has it. The \<open>error\<close> handler logs the error (message and stack) and leaves
  the readiness flag, the stored challenge, the client and the pending timers as they were;
  it sets \<open>clientInitializing\<close> to false. So the state fields are the same before and after
  exactly when the guard was already clear.
\<close>

theorem on_error_effect:
  "isClientReady (on_error e s) = isClientReady s
   \<and> qrCodeDataUrl (on_error e s) = qrCodeDataUrl s
   \<and> whatsappClient (on_error e s) = whatsappClient s
   \<and> clients (on_error e s) = clients s
   \<and> timers (on_error e s) = timers s
   \<and> clientInitializing (on_error e s) = False
   \<and> (\<exists>e1 e2. log (on_error e s) = log s @ [e1, e2]
         \<and> entry_sink e1 = Logger \<and> entry_level e1 = LError
         \<and> field ''error'' (entry_meta e1) = JString (error_message e))
   \<and> ((on_error e s)\<lparr>log := log s\<rparr> = s \<longleftrightarrow> \<not> clientInitializing s)"
  by (cases s) (auto simp: on_error_def emit_def js_def)

text \<open>
  C4 as the specification words it fails: while an initialization is in progress the guard is
  set, and it is clear once the \<open>error\<close> handler has run.
\<close>

theorem on_error_clears_guard_counterexample:
  "clientInitializing (initializeWhatsApp initial_state)
   \<and> \<not> clientInitializing (on_error sample_error (initializeWhatsApp initial_state))
   \<and> (on_error sample_error (initializeWhatsApp initial_state))
        \<lparr>log := log (initializeWhatsApp initial_state)\<rparr> \<noteq> initializeWhatsApp initial_state"
  by (simp add: on_error_def initializeWhatsApp_def initial_state_def emit_def)

section \<open>Disconnection and the re-entrancy guard\<close>

lemma initialize_guarded:
  "clientInitializing s \<Longrightarrow>
     initializeWhatsApp s =
       s\<lparr>log := log s @ [Entry Logger LWarn (js ''WhatsApp client initialization already in progress'')
                            JUndefined]\<rparr>"
  by (simp add: initializeWhatsApp_def emit_def)

lemma initialize_sets_guard: "clientInitializing (initializeWhatsApp s)"
  by (simp add: initializeWhatsApp_def emit_def)

lemma initialize_clients:
  "clients (initializeWhatsApp s) = (if clientInitializing s then clients s else Suc (clients s))"
  by (simp add: initializeWhatsApp_def emit_def)

lemma emit_frame:
  "clientInitializing (emit x s) = clientInitializing s"
  "clients (emit x s) = clients s"
  "timers (emit x s) = timers s"
  "isClientReady (emit x s) = isClientReady s"
  by (simp_all add: emit_def)

lemma reconnect_clients:
  "clients (run_callback Reconnect s) = (if clientInitializing s then clients s else Suc (clients s))"
  "clientInitializing (run_callback Reconnect s)"
  "timers (run_callback Reconnect s) = timers s"
  by (simp_all add: initialize_clients initialize_sets_guard emit_frame)
     (simp add: initializeWhatsApp_def emit_def)

lemma on_disconnected_effect:
  "clientInitializing (on_disconnected reason s) = False"
  "isClientReady (on_disconnected reason s) = False"
  "timers (on_disconnected reason s) = timers s @ [(5000, Reconnect)]"
  "clients (on_disconnected reason s) = clients s"
  "whatsappClient (on_disconnected reason s) = whatsappClient s"
  by (simp_all add: on_disconnected_def emit_def)

lemma step_keeps_guard:
  assumes "clientInitializing s" and "keeps_guard e"
  shows "clientInitializing (step e s) \<and> clients (step e s) = clients s"
proof (cases e)
  case EvInitialize
  with assms show ?thesis by (simp add: initialize_guarded)
next
  case (EvQr qr converted)
  with assms show ?thesis by (simp add: on_qr_def Let_def emit_def split: sum.splits)
next
  case EvAuthenticated
  with assms show ?thesis by (simp add: on_authenticated_def emit_def)
next
  case (EvMessageCreate m)
  with assms show ?thesis by (simp add: on_message_create_def emit_def)
next
  case EvTimer
  show ?thesis
  proof (cases "timers s")
    case Nil
    with assms EvTimer show ?thesis by (simp add: fire_timer_def)
  next
    case (Cons t rest)
    obtain d cb where t: "t = (d, cb)" by (cases t)
    have cb: "cb = Reconnect" by (cases cb)
    from assms(1) have "clientInitializing (s\<lparr>timers := rest\<rparr>)" by simp
    from reconnect_clients(1,2) [of "s\<lparr>timers := rest\<rparr>"] this
    show ?thesis
      using EvTimer Cons t cb by (simp add: fire_timer_def)
  qed
qed (use assms in simp_all)

lemma run_keeps_guard:
  "clientInitializing s \<Longrightarrow> list_all keeps_guard evs \<Longrightarrow>
     clientInitializing (run evs s) \<and> clients (run evs s) = clients s"
proof (induction evs arbitrary: s)
  case Nil
  then show ?case by (simp add: run_def)
next
  case (Cons e evs)
  from Cons.prems have k: "keeps_guard e" and ks: "list_all keeps_guard evs" by simp_all
  from step_keeps_guard [OF Cons.prems(1) k]
  have g: "clientInitializing (step e s)" and c: "clients (step e s) = clients s" by simp_all
  from Cons.IH [OF g ks] c show ?case by (simp add: run_def)
qed

lemma repeated_initialize_guarded:
  "clientInitializing s \<Longrightarrow>
     clientInitializing ((initializeWhatsApp ^^ k) s) \<and> clients ((initializeWhatsApp ^^ k) s) = clients s"
  by (induction k) (simp_all add: initialize_sets_guard initialize_clients)

lemma repeated_initialize:
  "clients ((initializeWhatsApp ^^ k) s) \<le> Suc (clients s)"
proof (cases k)
  case 0
  then show ?thesis by simp
next
  case (Suc j)
  have "clients ((initializeWhatsApp ^^ j) (initializeWhatsApp s)) = clients (initializeWhatsApp s)"
    using repeated_initialize_guarded [OF initialize_sets_guard] by simp
  then show ?thesis
    unfolding Suc funpow_Suc_right by (simp add: initialize_clients)
qed

text \<open>An event constructs at most one client, and only when the guard is clear.\<close>

lemma step_constructs:
  "clients (step e s) \<le> Suc (clients s)
   \<and> (clients (step e s) \<noteq> clients s \<longrightarrow> \<not> clientInitializing s \<and> clientInitializing (step e s))"
proof (cases e)
  case EvInitialize
  then show ?thesis by (simp add: initialize_clients initialize_sets_guard)
next
  case (EvQr qr converted)
  then show ?thesis by (simp add: on_qr_def Let_def emit_def split: sum.splits)
next
  case EvTimer
  show ?thesis
  proof (cases "timers s")
    case Nil
    with EvTimer show ?thesis by (simp add: fire_timer_def)
  next
    case (Cons t rest)
    obtain d cb where t: "t = (d, cb)" by (cases t)
    have cb: "cb = Reconnect" by (cases cb)
    from reconnect_clients(1,2) [of "s\<lparr>timers := rest\<rparr>"]
    show ?thesis
      using EvTimer Cons t cb by (simp add: fire_timer_def)
  qed
qed (simp_all add: on_authenticated_def on_auth_failure_def on_ready_def on_disconnected_def
      on_error_def on_message_create_def on_initialize_rejected_def emit_def)

text \<open>
  C5, as the code has it. A \<open>disconnected\<close> event clears the guard and the readiness flag
  and adds exactly one timer, of 5000 ms, whose callback calls \<open>initializeWhatsApp\<close>; it
  constructs no client itself, and when that timer fires (no older one pending) one new
  client is constructed and the guard is set again. A call of \<open>initializeWhatsApp\<close> while
  the guard is set changes nothing but the log, to which it adds the warning. Hence any
  number of calls in a row construct at most one client; as long as the guard stays set (no
  event that clears it arrives) no further client is constructed, whatever calls and timers
  come; and every event constructs at most one client, and one only when the guard was
  clear, setting it.
\<close>

theorem disconnect_reconnect_guard:
  "clientInitializing (on_disconnected reason s) = False
   \<and> isClientReady (on_disconnected reason s) = False
   \<and> timers (on_disconnected reason s) = timers s @ [(5000, Reconnect)]
   \<and> clients (on_disconnected reason s) = clients s
   \<and> (timers s = [] \<longrightarrow>
        clients (fire_timer (on_disconnected reason s)) = Suc (clients s)
        \<and> clientInitializing (fire_timer (on_disconnected reason s))
        \<and> timers (fire_timer (on_disconnected reason s)) = [])
   \<and> (clientInitializing s \<longrightarrow>
        initializeWhatsApp s =
          s\<lparr>log := log s @ [Entry Logger LWarn (js ''WhatsApp client initialization already in progress'')
                               JUndefined]\<rparr>)
   \<and> clientInitializing (initializeWhatsApp s)
   \<and> clients ((initializeWhatsApp ^^ k) s) \<le> Suc (clients s)
   \<and> (clientInitializing s \<and> list_all keeps_guard evs \<longrightarrow>
        clientInitializing (run evs s) \<and> clients (run evs s) = clients s)
   \<and> (\<forall>e. clients (step e s) \<le> Suc (clients s)
          \<and> (clients (step e s) \<noteq> clients s \<longrightarrow>
                \<not> clientInitializing s \<and> clientInitializing (step e s)))"
proof -
  have f: "clients (fire_timer (on_disconnected reason s)) = Suc (clients s)
        \<and> clientInitializing (fire_timer (on_disconnected reason s))
        \<and> timers (fire_timer (on_disconnected reason s)) = []" if "timers s = []"
    using that reconnect_clients [of "(on_disconnected reason s)\<lparr>timers := []\<rparr>"]
    by (simp add: fire_timer_def on_disconnected_effect)
  have handlers: "clientInitializing (on_disconnected reason s) = False
   \<and> isClientReady (on_disconnected reason s) = False
   \<and> timers (on_disconnected reason s) = timers s @ [(5000, Reconnect)]
   \<and> clients (on_disconnected reason s) = clients s
   \<and> (timers s = [] \<longrightarrow>
        clients (fire_timer (on_disconnected reason s)) = Suc (clients s)
        \<and> clientInitializing (fire_timer (on_disconnected reason s))
        \<and> timers (fire_timer (on_disconnected reason s)) = [])
   \<and> (clientInitializing s \<longrightarrow>
        initializeWhatsApp s =
          s\<lparr>log := log s @ [Entry Logger LWarn (js ''WhatsApp client initialization already in progress'')
                               JUndefined]\<rparr>)
   \<and> clientInitializing (initializeWhatsApp s)
   \<and> clients ((initializeWhatsApp ^^ k) s) \<le> Suc (clients s)
   \<and> (clientInitializing s \<and> list_all keeps_guard evs \<longrightarrow>
        clientInitializing (run evs s) \<and> clients (run evs s) = clients s)"
    using f initialize_guarded [of s] run_keeps_guard [of s evs]
    by (simp add: on_disconnected_effect initialize_sets_guard repeated_initialize)
  have events: "\<forall>e. clients (step e s) \<le> Suc (clients s)
          \<and> (clients (step e s) \<noteq> clients s \<longrightarrow>
                \<not> clientInitializing s \<and> clientInitializing (step e s))"
    using step_constructs [of _ s] by blast
  from handlers events show ?thesis
    by blast
qed

theorem disconnect_reconnect_guard_witness:
  "timers ready_state = []
   \<and> clients ready_state = 1
   \<and> clients (fire_timer (on_disconnected JNull ready_state)) = 2
   \<and> clientInitializing (fire_timer (on_disconnected JNull ready_state))
   \<and> list_all keeps_guard [EvInitialize, EvTimer, EvAuthenticated, EvInitialize]
   \<and> clients (run [EvInitialize, EvTimer, EvAuthenticated, EvInitialize]
        (fire_timer (on_disconnected JNull ready_state))) = 2
   \<and> log (initializeWhatsApp (initializeWhatsApp initial_state))
       = log (initializeWhatsApp initial_state)
           @ [Entry Logger LWarn (js ''WhatsApp client initialization already in progress'') JUndefined]"
proof -
  have t: "timers ready_state = []" and c: "clients ready_state = 1"
    by (simp_all add: ready_state_def on_ready_def initializeWhatsApp_def initial_state_def emit_def)
  note w1 = disconnect_reconnect_guard [of JNull ready_state]
  from w1 t c have a: "clients (fire_timer (on_disconnected JNull ready_state)) = 2
      \<and> clientInitializing (fire_timer (on_disconnected JNull ready_state))"
    by simp
  have l: "list_all keeps_guard [EvInitialize, EvTimer, EvAuthenticated, EvInitialize]"
    by simp
  note w2 = disconnect_reconnect_guard [of JNull "fire_timer (on_disconnected JNull ready_state)" 0
      "[EvInitialize, EvTimer, EvAuthenticated, EvInitialize]"]
  from w2 a l have b: "clients (run [EvInitialize, EvTimer, EvAuthenticated, EvInitialize]
        (fire_timer (on_disconnected JNull ready_state))) = 2"
    by simp
  note w3 = disconnect_reconnect_guard [of JNull "initializeWhatsApp initial_state"]
  have g: "clientInitializing (initializeWhatsApp initial_state)"
    by (rule initialize_sets_guard)
  from w3 g have d: "log (initializeWhatsApp (initializeWhatsApp initial_state))
       = log (initializeWhatsApp initial_state)
           @ [Entry Logger LWarn (js ''WhatsApp client initialization already in progress'') JUndefined]"
    by simp
  from t c a l b d show ?thesis by blast
qed

text \<open>
  C5 as the specification words it fails: the guard does not stay set for as long as an
  instance is being established. An \<open>error\<close> event clears it, and the next call of
  \<open>initializeWhatsApp\<close> constructs a second instance while the first has neither become
  ready nor failed nor been disconnected. The same happens through the reconnect timers
  alone, when two \<open>disconnected\<close> events have left two timers pending.
\<close>

theorem second_instance_after_error_counterexample:
  "establishing [EvInitialize, EvError sample_error, EvInitialize] initial_state 0 = 2
   \<and> clients (run [EvInitialize, EvError sample_error, EvInitialize] initial_state) = 2
   \<and> \<not> isClientReady (run [EvInitialize, EvError sample_error, EvInitialize] initial_state)
   \<and> establishing [EvInitialize, EvReady, EvDisconnected JNull, EvDisconnected JNull, EvTimer,
                    EvError sample_error, EvTimer] initial_state 0 = 2
   \<and> clients (run [EvInitialize, EvReady, EvDisconnected JNull, EvDisconnected JNull, EvTimer,
                    EvError sample_error, EvTimer] initial_state) = 3
   \<and> \<not> isClientReady (run [EvInitialize, EvReady, EvDisconnected JNull, EvDisconnected JNull, EvTimer,
                    EvError sample_error, EvTimer] initial_state)"
  by (simp add: run_def initializeWhatsApp_def on_ready_def on_error_def on_disconnected_def
      fire_timer_def emit_def initial_state_def)

end
